theory Spec2Isabelle
  imports Main
begin

section \<open>Data model of packages/core/svelte/use-chat.ts\<close>

text \<open>
  The roles a message can carry. JSON values that the session only passes along
  (function calls, tool calls, stream data, request options) are kept as their
  serialised text.
\<close>

datatype role = System | User | Assistant | Function | Data | Tool

type_synonym JSONValue = string

text \<open>
  A message. An optional field that is absent or \<^verbatim>\<open>undefined\<close> is \<open>None\<close>.
  \<open>msg_id\<close> is the field \<^verbatim>\<open>id\<close>; it is optional because \<^verbatim>\<open>append\<close> also accepts a
  \<^verbatim>\<open>CreateMessage\<close>, whose id may be missing.
\<close>

record Message =
  msg_id :: "string option"
  role :: role
  content :: string
  name :: "string option"
  function_call :: "JSONValue option"
  tool_calls :: "JSONValue option"
  tool_call_id :: "string option"
  createdAt :: "nat option"

record ChatRequestOptions =
  req_options :: "JSONValue option"
  req_functions :: "JSONValue option"
  req_function_call :: "JSONValue option"
  req_tools :: "JSONValue option"
  req_tool_choice :: "JSONValue option"

record ChatRequest = ChatRequestOptions +
  req_messages :: "Message list"

text \<open>
  A value caught by \<^verbatim>\<open>catch (err)\<close>. Anything can be thrown: the value is \<^verbatim>\<open>null\<close>,
  \<^verbatim>\<open>undefined\<close>, or an object, of which the code reads the \<^verbatim>\<open>name\<close> property (\<open>None\<close> when
  it is not a string) and tests \<^verbatim>\<open>err instanceof Error\<close>. Reading a property of \<^verbatim>\<open>null\<close> or
  \<^verbatim>\<open>undefined\<close> raises a \<^verbatim>\<open>TypeError\<close>.
\<close>

record error_object =
  err_name :: "string option"
  err_message :: string
  is_Error :: bool

datatype thrown = ThrownNull | ThrownUndefined | ThrownObject error_object

text \<open>
  The \<^verbatim>\<open>TypeError\<close> of a property read on \<^verbatim>\<open>null\<close> or \<^verbatim>\<open>undefined\<close>; the wording of its
  message depends on the engine.
\<close>

definition type_error :: thrown where
  "type_error = ThrownObject \<lparr>err_name = Some ''TypeError'',
                  err_message = ''Cannot read properties of null or undefined'',
                  is_Error = True\<rparr>"

text \<open>
  A hook of the embedding application called with a caught value: it returns normally
  (\<open>None\<close>) or throws a value of its own.
\<close>

type_synonym hook = "thrown \<Rightarrow> thrown option"

text \<open>What the promises of \<^verbatim>\<open>append\<close> and \<^verbatim>\<open>reload\<close> settle to.\<close>

datatype ret = Null | Undefined

datatype promise = Resolved ret | Rejected thrown

text \<open>
  The \<^verbatim>\<open>messages\<close> argument handed to \<^verbatim>\<open>callChatApi\<close>: the messages themselves, or the
  objects built by the projection, which have exactly the six fields below.
\<close>

record payload_message =
  p_role :: role
  p_content :: string
  p_tool_call_id :: "string option"
  p_name :: "string option"
  p_function_call :: "JSONValue option"
  p_tool_calls :: "JSONValue option"

datatype payload = Full "Message list" | Minimal "payload_message list"

record callChatApi_args =
  arg_api :: string
  arg_messages :: payload
  arg_abortController :: "nat option"

text \<open>
  The constants of one session, fixed when \<^verbatim>\<open>useChat\<close> is called: the endpoint, the chat
  id, whether extended message fields are sent and the \<^verbatim>\<open>onError\<close> hook, if one is
  registered.
\<close>

record config =
  api :: string
  chatId :: string
  sendExtraMessageFields :: "bool option"
  onError :: "hook option"

definition key :: "config \<Rightarrow> string" where
  "key cfg = api cfg @ ''|'' @ chatId cfg"

text \<open>
  The state: the two module-level variables \<^verbatim>\<open>uniqueId\<close> and \<^verbatim>\<open>store\<close>, the heap of
  \<^verbatim>\<open>AbortController\<close> objects (the \<^verbatim>\<open>aborted\<close> flag of each allocated controller), the
  variables of the session under study (five svelte stores and the \<^verbatim>\<open>abortController\<close>
  variable, a reference into the heap or \<^verbatim>\<open>null\<close>), and two logs of what the session
  did to the outside: the calls of \<^verbatim>\<open>callChatApi\<close> and the calls of the \<^verbatim>\<open>onError\<close> hook.
\<close>

record state =
  uniqueId :: nat
  store :: "string \<rightharpoonup> Message list"
  controllers :: "nat \<Rightarrow> bool"
  next_controller :: nat
  messages :: "Message list"
  streamData :: "JSONValue list option"
  loading :: bool
  error :: "thrown option"
  input :: string
  abortController :: "nat option"
  requests :: "callChatApi_args list"
  onError_calls :: "thrown list"

record UseChatOptions =
  api_opt :: "string option"
  id_opt :: "string option"
  initialMessages_opt :: "Message list option"
  initialInput_opt :: "string option"
  sendExtraMessageFields_opt :: "bool option"
  onError_opt :: "hook option"

section \<open>The imported functions\<close>

text \<open>
  \<^verbatim>\<open>callChatApi\<close> and \<^verbatim>\<open>processChatStream\<close> are imported from \<^verbatim>\<open>../shared\<close>. Whatever they
  do, they reach the session only through the callbacks they are handed. What one call
  of \<^verbatim>\<open>callChatApi\<close> does to the session is therefore the sequence of its calls of
  \<^verbatim>\<open>onUpdate\<close> and \<^verbatim>\<open>restoreMessagesOnFailure\<close>; what one call of \<^verbatim>\<open>processChatStream\<close>
  does is the sequence of its calls of \<^verbatim>\<open>getStreamedResponse\<close> (each with what
  \<^verbatim>\<open>callChatApi\<close> does in it), \<^verbatim>\<open>updateChatRequest\<close> and \<^verbatim>\<open>getCurrentMessages\<close>, followed
  by how its promise settles. A hook that is called inside them (\<^verbatim>\<open>onResponse\<close>,
  \<^verbatim>\<open>onFinish\<close>, the function-call and tool-call hooks) and throws makes that promise
  reject, which is one of the ways it settles. The two hooks that this file calls itself,
  \<^verbatim>\<open>onError\<close> and \<^verbatim>\<open>generateId\<close>, may return or throw. No hook calls back into the session.
\<close>

datatype api_event =
    OnUpdate "Message list" "JSONValue list option"
  | RestoreMessagesOnFailure

datatype pcs_event =
    GetStreamedResponse "api_event list"
  | UpdateChatRequest ChatRequest
  | GetCurrentMessages

type_synonym behaviour = "pcs_event list \<times> (thrown + unit)"

section \<open>getStreamedResponse\<close>

definition mutate :: "config \<Rightarrow> Message list \<Rightarrow> state \<Rightarrow> state" where
  "mutate cfg data s = (s\<lparr>store := (store s)(key cfg \<mapsto> data)\<rparr>)\<lparr>messages := data\<rparr>"

definition project :: "Message \<Rightarrow> payload_message" where
  "project m =
     \<lparr>p_role = role m, p_content = content m, p_tool_call_id = tool_call_id m,
      p_name = name m, p_function_call = function_call m, p_tool_calls = tool_calls m\<rparr>"

definition constructedMessagesPayload :: "bool option \<Rightarrow> ChatRequest \<Rightarrow> payload" where
  "constructedMessagesPayload sendExtra chatRequest =
     (if sendExtra = Some True then Full (req_messages chatRequest)
      else Minimal (map project (req_messages chatRequest)))"

definition restoreMessagesOnFailure :: "config \<Rightarrow> Message list \<Rightarrow> state \<Rightarrow> state" where
  "restoreMessagesOnFailure cfg previousMessages s = mutate cfg previousMessages s"

definition or_empty :: "'a list option \<Rightarrow> 'a list" where
  "or_empty x = (case x of None \<Rightarrow> [] | Some xs \<Rightarrow> xs)"

definition onUpdate ::
  "config \<Rightarrow> ChatRequest \<Rightarrow> JSONValue list option \<Rightarrow>
   Message list \<Rightarrow> JSONValue list option \<Rightarrow> state \<Rightarrow> state" where
  "onUpdate cfg chatRequest existingData merged data s =
     (let s1 = mutate cfg (req_messages chatRequest @ merged) s
      in s1\<lparr>streamData := Some (or_empty existingData @ or_empty data)\<rparr>)"

text \<open>One callback invocation made by \<^verbatim>\<open>callChatApi\<close>, with the closure it was given.\<close>

fun callback ::
  "config \<Rightarrow> ChatRequest \<Rightarrow> JSONValue list option \<Rightarrow> Message list \<Rightarrow>
   api_event \<Rightarrow> state \<Rightarrow> state" where
  "callback cfg chatRequest existingData previousMessages (OnUpdate merged data) s =
     onUpdate cfg chatRequest existingData merged data s"
| "callback cfg chatRequest existingData previousMessages RestoreMessagesOnFailure s =
     restoreMessagesOnFailure cfg previousMessages s"

text \<open>
  \<^verbatim>\<open>getStreamedResponse\<close>: publish the request's messages, build the payload, call
  \<^verbatim>\<open>callChatApi\<close> (logged in \<open>requests\<close>), whose callback invocations \<open>evs\<close> then run.
  Headers, body, credentials and stream mode are passed through and are not modelled.
\<close>

definition getStreamedResponse ::
  "config \<Rightarrow> ChatRequest \<Rightarrow> JSONValue list option \<Rightarrow> Message list \<Rightarrow> nat option \<Rightarrow>
   api_event list \<Rightarrow> state \<Rightarrow> state" where
  "getStreamedResponse cfg chatRequest existingData previousMessages abortControllerRef evs s =
     (let s1 = mutate cfg (req_messages chatRequest) s;
          constructed = constructedMessagesPayload (sendExtraMessageFields cfg) chatRequest;
          s2 = s1\<lparr>requests := requests s1 @
                 [\<lparr>arg_api = api cfg, arg_messages = constructed,
                   arg_abortController = abortControllerRef\<rparr>]\<rparr>
      in fold (callback cfg chatRequest existingData previousMessages) evs s2)"

section \<open>useChat\<close>

text \<open>The decimal text of \<^verbatim>\<open>uniqueId\<close> in the template string \<^verbatim>\<open>`chat-${uniqueId++}`\<close>.\<close>

fun decimal :: "nat \<Rightarrow> string" where
  "decimal n =
     (if n < 10 then [''0123456789'' ! n]
      else decimal (n div 10) @ [''0123456789'' ! (n mod 10)])"

declare decimal.simps [simp del]

definition useChat :: "UseChatOptions \<Rightarrow> state \<Rightarrow> config \<times> state" where
  "useChat opts g =
     (let api' = (case api_opt opts of None \<Rightarrow> ''/api/chat'' | Some a \<Rightarrow> a);
          initialMessages = (case initialMessages_opt opts of None \<Rightarrow> [] | Some ms \<Rightarrow> ms);
          initialInput = (case initialInput_opt opts of None \<Rightarrow> '''' | Some i \<Rightarrow> i);
          fresh = (''chat-'' @ decimal (uniqueId g), g\<lparr>uniqueId := Suc (uniqueId g)\<rparr>);
          (chatId', g1) = (case id_opt opts of
                             None \<Rightarrow> fresh
                           | Some i \<Rightarrow> if i = '''' then fresh else (i, g))
      in (\<lparr>api = api', chatId = chatId',
           sendExtraMessageFields = sendExtraMessageFields_opt opts,
           onError = onError_opt opts\<rparr>,
          g1\<lparr>messages := initialMessages, streamData := None, loading := False,
             error := None, input := initialInput, abortController := None\<rparr>))"

subsection \<open>triggerRequest\<close>

text \<open>Lines 157 to 159: the statements before \<^verbatim>\<open>processChatStream\<close> is called.\<close>

definition triggerRequest_begin :: "state \<Rightarrow> state" where
  "triggerRequest_begin s =
     (let s1 = s\<lparr>error := None\<rparr>;
          s2 = s1\<lparr>loading := True\<rparr>;
          c = next_controller s2
      in s2\<lparr>controllers := (controllers s2)(c := False), next_controller := Suc c,
            abortController := Some c\<rparr>)"

text \<open>
  One call that \<^verbatim>\<open>processChatStream\<close> makes of a callback it was handed. The arrow function
  around \<^verbatim>\<open>getStreamedResponse\<close> reads \<^verbatim>\<open>chatRequest\<close>, \<^verbatim>\<open>get(streamData)\<close>,
  \<^verbatim>\<open>get(messages)\<close> and \<^verbatim>\<open>abortController\<close> when it is called.
\<close>

fun processChatStream_call :: "config \<Rightarrow> pcs_event \<Rightarrow> ChatRequest \<times> state \<Rightarrow> ChatRequest \<times> state" where
  "processChatStream_call cfg (GetStreamedResponse evs) (chatRequest, s) =
     (chatRequest,
      getStreamedResponse cfg chatRequest (streamData s) (messages s) (abortController s) evs s)"
| "processChatStream_call cfg (UpdateChatRequest chatRequestParam) (chatRequest, s) =
     (chatRequestParam, s)"
| "processChatStream_call cfg GetCurrentMessages (chatRequest, s) = (chatRequest, s)"

text \<open>
  The effect on the session of the calls \<open>calls\<close> that \<^verbatim>\<open>processChatStream\<close> makes, in
  order, starting from the \<^verbatim>\<open>chatRequest\<close> that \<^verbatim>\<open>triggerRequest\<close> was given.
\<close>

definition processChatStream :: "config \<Rightarrow> pcs_event list \<Rightarrow> ChatRequest \<Rightarrow> state \<Rightarrow> state" where
  "processChatStream cfg calls chatRequest s =
     snd (fold (processChatStream_call cfg) calls (chatRequest, s))"

text \<open>
  Lines 188 to 204: what follows the \<^verbatim>\<open>await\<close>, by how the awaited promise settled, and
  the \<^verbatim>\<open>finally\<close> block, which runs on every path. Inside the \<^verbatim>\<open>catch\<close> block two
  statements can throw, and what they throw rejects the promise of \<^verbatim>\<open>triggerRequest\<close>:
  \<^verbatim>\<open>(err as any).name\<close> when \<^verbatim>\<open>err\<close> is \<^verbatim>\<open>null\<close> or \<^verbatim>\<open>undefined\<close> (line 192), and the call
  \<^verbatim>\<open>onError(err)\<close> (line 198), made when a hook is registered and \<^verbatim>\<open>err\<close> is an instance of
  \<^verbatim>\<open>Error\<close>; \<^verbatim>\<open>error.set\<close> on line 201 is then not reached.
\<close>

definition triggerRequest_end :: "config \<Rightarrow> thrown + unit \<Rightarrow> state \<Rightarrow> promise \<times> state" where
  "triggerRequest_end cfg outcome s =
     (case outcome of
        Inr _ \<Rightarrow> (Resolved Null, (s\<lparr>abortController := None\<rparr>)\<lparr>loading := False\<rparr>)
      | Inl err \<Rightarrow>
          (case err of
             ThrownNull \<Rightarrow> (Rejected type_error, s\<lparr>loading := False\<rparr>)
           | ThrownUndefined \<Rightarrow> (Rejected type_error, s\<lparr>loading := False\<rparr>)
           | ThrownObject obj \<Rightarrow>
               if err_name obj = Some ''AbortError''
               then (Resolved Null, (s\<lparr>abortController := None\<rparr>)\<lparr>loading := False\<rparr>)
               else
                 (case (if is_Error obj then onError cfg else None) of
                    None \<Rightarrow> (Resolved Undefined, (s\<lparr>error := Some err\<rparr>)\<lparr>loading := False\<rparr>)
                  | Some hook \<Rightarrow>
                      let s1 = s\<lparr>onError_calls := onError_calls s @ [err]\<rparr>
                      in (case hook err of
                            Some raised \<Rightarrow> (Rejected raised, s1\<lparr>loading := False\<rparr>)
                          | None \<Rightarrow>
                              (Resolved Undefined,
                               (s1\<lparr>error := Some err\<rparr>)\<lparr>loading := False\<rparr>)))))"

definition triggerRequest :: "config \<Rightarrow> ChatRequest \<Rightarrow> behaviour \<Rightarrow> state \<Rightarrow> promise \<times> state" where
  "triggerRequest cfg chatRequest b s =
     triggerRequest_end cfg (snd b)
       (processChatStream cfg (fst b) chatRequest (triggerRequest_begin s))"

subsection \<open>append, reload, stop, setMessages, handleSubmit\<close>

definition falsy :: "string option \<Rightarrow> bool" where
  "falsy x = (x = None \<or> x = Some '''')"

text \<open>
  \<open>generated\<close> is what the call \<^verbatim>\<open>generateId()\<close> does when it is made: it returns an id or
  throws. \<^verbatim>\<open>append\<close> is an \<^verbatim>\<open>async\<close> function, so a value thrown before \<^verbatim>\<open>triggerRequest\<close> is
  called rejects its promise.
\<close>

definition append_chat ::
  "config \<Rightarrow> thrown + string \<Rightarrow> Message \<Rightarrow> ChatRequestOptions \<Rightarrow> behaviour \<Rightarrow> state \<Rightarrow>
   promise \<times> state" where
  "append_chat cfg generated message opts b s =
     (case (if falsy (msg_id message)
            then (case generated of
                    Inl raised \<Rightarrow> Inl raised
                  | Inr i \<Rightarrow> Inr (message\<lparr>msg_id := Some i\<rparr>))
            else Inr message) of
        Inl raised \<Rightarrow> (Rejected raised, s)
      | Inr message' \<Rightarrow>
          let chatRequest = \<lparr>req_options = req_options opts, req_functions = req_functions opts,
                             req_function_call = req_function_call opts,
                             req_tools = req_tools opts, req_tool_choice = req_tool_choice opts,
                             req_messages = messages s @ [message']\<rparr>
          in triggerRequest cfg chatRequest b s)"

definition reload :: "config \<Rightarrow> ChatRequestOptions \<Rightarrow> behaviour \<Rightarrow> state \<Rightarrow> promise \<times> state" where
  "reload cfg opts b s =
     (let messagesSnapshot = messages s
      in if length messagesSnapshot = 0 then (Resolved Null, s)
         else
           let lastMessage = last messagesSnapshot
           in if role lastMessage = Assistant
              then
                let chatRequest = \<lparr>req_options = req_options opts, req_functions = req_functions opts,
                                   req_function_call = req_function_call opts,
                                   req_tools = req_tools opts, req_tool_choice = req_tool_choice opts,
                                   req_messages = butlast messagesSnapshot\<rparr>
                in triggerRequest cfg chatRequest b s
              else
                let chatRequest = \<lparr>req_options = req_options opts, req_functions = req_functions opts,
                                   req_function_call = req_function_call opts,
                                   req_tools = req_tools opts, req_tool_choice = req_tool_choice opts,
                                   req_messages = messagesSnapshot\<rparr>
                in triggerRequest cfg chatRequest b s)"

definition stop :: "state \<Rightarrow> state" where
  "stop s =
     (case abortController s of
        None \<Rightarrow> s
      | Some c \<Rightarrow> (s\<lparr>controllers := (controllers s)(c := True)\<rparr>)\<lparr>abortController := None\<rparr>)"

definition setMessages :: "config \<Rightarrow> Message list \<Rightarrow> state \<Rightarrow> state" where
  "setMessages cfg ms s = mutate cfg ms s"

text \<open>
  \<open>now\<close> is the value of \<^verbatim>\<open>new Date()\<close>. The promise of \<^verbatim>\<open>append\<close> is not awaited, so
  \<^verbatim>\<open>input.set('')\<close> runs whatever becomes of it. The call \<^verbatim>\<open>e.preventDefault()\<close> on the form
  event does not touch the session and is left out.
\<close>

definition handleSubmit ::
  "config \<Rightarrow> thrown + string \<Rightarrow> nat \<Rightarrow> ChatRequestOptions \<Rightarrow> behaviour \<Rightarrow> state \<Rightarrow> state" where
  "handleSubmit cfg generated now opts b s =
     (let inputValue = input s
      in if inputValue = '''' then s
         else
           let s1 = snd (append_chat cfg generated
                      \<lparr>msg_id = None, role = User, content = inputValue, name = None,
                       function_call = None, tool_calls = None, tool_call_id = None,
                       createdAt = Some now\<rparr> opts b s)
           in s1\<lparr>input := ''''\<rparr>)"

section \<open>The transport, as the spec describes it\<close>

text \<open>
  What the endpoint answers to one request: the successive \<^verbatim>\<open>(merged, data)\<close> updates that
  the decoded stream gives rise to, and how the request ends (normally, or with a value
  thrown).
\<close>

definition is_abort :: "thrown \<Rightarrow> bool" where
  "is_abort err =
     (case err of
        ThrownObject obj \<Rightarrow> err_name obj = Some ''AbortError''
      | _ \<Rightarrow> False)"

record response =
  updates :: "(Message list \<times> JSONValue list option) list"
  ending :: "thrown + unit"

text \<open>
  Modelled from the spec: \<^verbatim>\<open>callChatApi\<close> of \<^verbatim>\<open>../shared/call-chat-api\<close>, which is not among
  the sources. Section 4.3: each update is applied as it arrives; "On transport-level
  cancellation (caller-initiated stop()), the exchange resolves without raising an error
  and without restoring prior state (already-applied partial tokens remain). On any other
  failure, it restores the Conversation State to the snapshot captured immediately before
  the exchange began [...], then surfaces the error." Section 7 names the cancellation
  error \<^verbatim>\<open>AbortError\<close>. The result is the sequence of callback invocations of the call.
\<close>

definition callChatApi :: "response \<Rightarrow> api_event list" where
  "callChatApi r =
     map (\<lambda>(merged, data). OnUpdate merged data) (updates r) @
     (case ending r of
        Inr _ \<Rightarrow> []
      | Inl err \<Rightarrow> if is_abort err then [] else [RestoreMessagesOnFailure])"

section \<open>A small scenario\<close>

definition quiet_hook :: hook where
  "quiet_hook err = None"

definition hook_failure :: thrown where
  "hook_failure = ThrownObject \<lparr>err_name = Some ''Error'', err_message = ''onError failed'',
                    is_Error = True\<rparr>"

definition throwing_hook :: hook where
  "throwing_hook err = Some hook_failure"

definition chat_config :: config where
  "chat_config = \<lparr>api = ''/api/chat'', chatId = ''c'', sendExtraMessageFields = None,
                   onError = Some quiet_hook\<rparr>"

definition fresh_state :: state where
  "fresh_state = \<lparr>uniqueId = 0, store = Map.empty, controllers = (\<lambda>_. False),
                   next_controller = 0, messages = [], streamData = None, loading = False,
                   error = None, input = [], abortController = None, requests = [],
                   onError_calls = []\<rparr>"

definition says :: "string \<Rightarrow> role \<Rightarrow> string \<Rightarrow> Message" where
  "says i r c = \<lparr>msg_id = Some i, role = r, content = c, name = None, function_call = None,
                  tool_calls = None, tool_call_id = None, createdAt = None\<rparr>"

definition no_options :: ChatRequestOptions where
  "no_options = \<lparr>req_options = None, req_functions = None, req_function_call = None,
                  req_tools = None, req_tool_choice = None\<rparr>"

definition request_of :: "Message list \<Rightarrow> ChatRequest" where
  "request_of ms = \<lparr>req_options = None, req_functions = None, req_function_call = None,
                     req_tools = None, req_tool_choice = None, req_messages = ms\<rparr>"

definition abort_error :: error_object where
  "abort_error = \<lparr>err_name = Some ''AbortError'', err_message = ''The operation was aborted.'',
                   is_Error = True\<rparr>"

definition parse_error :: error_object where
  "parse_error = \<lparr>err_name = Some ''Error'', err_message = ''Failed to parse stream string.'',
                   is_Error = True\<rparr>"

definition plain_object :: error_object where
  "plain_object = \<lparr>err_name = None, err_message = ''rejected'', is_Error = False\<rparr>"

text \<open>
  Two exchanges started one after the other on a fresh session, each seen while its first
  request awaits the endpoint: A submits the user message "Hi", then B submits "Yo".
\<close>

definition while_A_awaits :: state where
  "while_A_awaits =
     processChatStream chat_config [GetStreamedResponse []] (request_of [says ''1'' User ''Hi''])
       (triggerRequest_begin fresh_state)"

definition while_B_awaits :: state where
  "while_B_awaits =
     processChatStream chat_config [GetStreamedResponse []]
       (request_of (messages while_A_awaits @ [says ''2'' User ''Yo'']))
       (triggerRequest_begin while_A_awaits)"

text \<open>
  A session with the id \<^verbatim>\<open>a\<close> is constructed, its messages are set, and a session with the
  same options is constructed again.
\<close>

definition chat_a :: UseChatOptions where
  "chat_a = \<lparr>api_opt = None, id_opt = Some ''a'', initialMessages_opt = None,
              initialInput_opt = None, sendExtraMessageFields_opt = None, onError_opt = None\<rparr>"

definition session_a :: "config \<times> state" where
  "session_a = useChat chat_a fresh_state"

definition session_a_used :: state where
  "session_a_used = setMessages (fst session_a) [says ''1'' User ''Hi''] (snd session_a)"

definition session_a_again :: "config \<times> state" where
  "session_a_again = useChat chat_a session_a_used"

text \<open>A session whose conversation is the user message "Hi".\<close>

definition one_message :: state where
  "one_message = fresh_state\<lparr>messages := [says ''1'' User ''Hi'']\<rparr>"

text \<open>
  An exchange of two requests: the first streams an assistant message and returns, the
  request is replaced by one that carries a function result, and the second request
  streams a message and then has its restore callback called.
\<close>

definition two_requests :: "pcs_event list" where
  "two_requests =
     [GetStreamedResponse [OnUpdate [says ''2'' Assistant ''Calling''] None],
      UpdateChatRequest (request_of [says ''1'' User ''Hi'', says ''2'' Assistant ''Calling'',
                                     says ''3'' Function ''42'']),
      GetStreamedResponse [OnUpdate [says ''4'' Assistant ''Hel''] None, RestoreMessagesOnFailure]]"

text \<open>
  Exchange A returns (line 188 and the \<^verbatim>\<open>finally\<close> block run) while exchange B still awaits
  the endpoint.
\<close>

definition A_returned_while_B_awaits :: state where
  "A_returned_while_B_awaits = snd (triggerRequest_end chat_config (Inr ()) while_B_awaits)"

text \<open>A session after an exchange that failed with an error that is not an abort error.\<close>

definition after_failure :: state where
  "after_failure =
     snd (triggerRequest chat_config (request_of [says ''1'' User ''Hi''])
            ([GetStreamedResponse [RestoreMessagesOnFailure]], Inl (ThrownObject parse_error))
            one_message)"

section \<open>What the callbacks leave alone, and what they keep in step\<close>

lemma callback_frame:
  "loading (callback cfg r ex prev ev s) = loading s \<and>
   error (callback cfg r ex prev ev s) = error s \<and>
   abortController (callback cfg r ex prev ev s) = abortController s \<and>
   controllers (callback cfg r ex prev ev s) = controllers s \<and>
   next_controller (callback cfg r ex prev ev s) = next_controller s \<and>
   onError_calls (callback cfg r ex prev ev s) = onError_calls s \<and>
   requests (callback cfg r ex prev ev s) = requests s \<and>
   input (callback cfg r ex prev ev s) = input s \<and>
   uniqueId (callback cfg r ex prev ev s) = uniqueId s"
  by (cases ev) (simp_all add: onUpdate_def restoreMessagesOnFailure_def mutate_def)

lemma callbacks_frame:
  "loading (fold (callback cfg r ex prev) evs s) = loading s \<and>
   error (fold (callback cfg r ex prev) evs s) = error s \<and>
   abortController (fold (callback cfg r ex prev) evs s) = abortController s \<and>
   controllers (fold (callback cfg r ex prev) evs s) = controllers s \<and>
   next_controller (fold (callback cfg r ex prev) evs s) = next_controller s \<and>
   onError_calls (fold (callback cfg r ex prev) evs s) = onError_calls s \<and>
   requests (fold (callback cfg r ex prev) evs s) = requests s \<and>
   input (fold (callback cfg r ex prev) evs s) = input s \<and>
   uniqueId (fold (callback cfg r ex prev) evs s) = uniqueId s"
  by (induction evs arbitrary: s) (simp_all add: callback_frame)

lemma getStreamedResponse_frame:
  "loading (getStreamedResponse cfg r ex prev ac evs s) = loading s \<and>
   error (getStreamedResponse cfg r ex prev ac evs s) = error s \<and>
   abortController (getStreamedResponse cfg r ex prev ac evs s) = abortController s \<and>
   controllers (getStreamedResponse cfg r ex prev ac evs s) = controllers s \<and>
   next_controller (getStreamedResponse cfg r ex prev ac evs s) = next_controller s \<and>
   onError_calls (getStreamedResponse cfg r ex prev ac evs s) = onError_calls s \<and>
   input (getStreamedResponse cfg r ex prev ac evs s) = input s \<and>
   uniqueId (getStreamedResponse cfg r ex prev ac evs s) = uniqueId s"
  by (simp add: getStreamedResponse_def Let_def callbacks_frame mutate_def)

lemma processChatStream_call_frame:
  "loading (snd (processChatStream_call cfg c p)) = loading (snd p) \<and>
   error (snd (processChatStream_call cfg c p)) = error (snd p) \<and>
   abortController (snd (processChatStream_call cfg c p)) = abortController (snd p) \<and>
   controllers (snd (processChatStream_call cfg c p)) = controllers (snd p) \<and>
   next_controller (snd (processChatStream_call cfg c p)) = next_controller (snd p) \<and>
   onError_calls (snd (processChatStream_call cfg c p)) = onError_calls (snd p) \<and>
   input (snd (processChatStream_call cfg c p)) = input (snd p) \<and>
   uniqueId (snd (processChatStream_call cfg c p)) = uniqueId (snd p)"
  by (cases c; cases p) (simp_all add: getStreamedResponse_frame)

lemma processChatStream_calls_frame:
  "loading (snd (fold (processChatStream_call cfg) cs p)) = loading (snd p) \<and>
   error (snd (fold (processChatStream_call cfg) cs p)) = error (snd p) \<and>
   abortController (snd (fold (processChatStream_call cfg) cs p)) = abortController (snd p) \<and>
   controllers (snd (fold (processChatStream_call cfg) cs p)) = controllers (snd p) \<and>
   next_controller (snd (fold (processChatStream_call cfg) cs p)) = next_controller (snd p) \<and>
   onError_calls (snd (fold (processChatStream_call cfg) cs p)) = onError_calls (snd p) \<and>
   input (snd (fold (processChatStream_call cfg) cs p)) = input (snd p) \<and>
   uniqueId (snd (fold (processChatStream_call cfg) cs p)) = uniqueId (snd p)"
  by (induction cs arbitrary: p) (simp_all add: processChatStream_call_frame)

lemma processChatStream_frame:
  "loading (processChatStream cfg cs r s) = loading s \<and>
   error (processChatStream cfg cs r s) = error s \<and>
   abortController (processChatStream cfg cs r s) = abortController s \<and>
   controllers (processChatStream cfg cs r s) = controllers s \<and>
   next_controller (processChatStream cfg cs r s) = next_controller s \<and>
   onError_calls (processChatStream cfg cs r s) = onError_calls s \<and>
   input (processChatStream cfg cs r s) = input s \<and>
   uniqueId (processChatStream cfg cs r s) = uniqueId s"
  unfolding processChatStream_def using processChatStream_calls_frame [of cfg cs "(r, s)"] by simp

lemma triggerRequest_begin_simps:
  "error (triggerRequest_begin s) = None"
  "loading (triggerRequest_begin s) = True"
  "abortController (triggerRequest_begin s) = Some (next_controller s)"
  "controllers (triggerRequest_begin s) = (controllers s)(next_controller s := False)"
  "next_controller (triggerRequest_begin s) = Suc (next_controller s)"
  "messages (triggerRequest_begin s) = messages s"
  "store (triggerRequest_begin s) = store s"
  "streamData (triggerRequest_begin s) = streamData s"
  "onError_calls (triggerRequest_begin s) = onError_calls s"
  "requests (triggerRequest_begin s) = requests s"
  "input (triggerRequest_begin s) = input s"
  by (simp_all add: triggerRequest_begin_def Let_def)

lemma callback_synced:
  "store (callback cfg r ex prev ev s) (key cfg) = Some (messages (callback cfg r ex prev ev s))"
  by (cases ev) (simp_all add: onUpdate_def restoreMessagesOnFailure_def mutate_def)

lemma callbacks_synced:
  "store s (key cfg) = Some (messages s) \<Longrightarrow>
   store (fold (callback cfg r ex prev) evs s) (key cfg) =
     Some (messages (fold (callback cfg r ex prev) evs s))"
  by (induction evs arbitrary: s) (simp_all add: callback_synced)

lemma getStreamedResponse_synced:
  "store (getStreamedResponse cfg r ex prev ac evs s) (key cfg) =
     Some (messages (getStreamedResponse cfg r ex prev ac evs s))"
  unfolding getStreamedResponse_def Let_def
  by (rule callbacks_synced) (simp add: mutate_def)

lemma processChatStream_call_synced:
  "(messages (snd (processChatStream_call cfg c p)) = messages (snd p) \<and>
    store (snd (processChatStream_call cfg c p)) = store (snd p)) \<or>
   store (snd (processChatStream_call cfg c p)) (key cfg) =
     Some (messages (snd (processChatStream_call cfg c p)))"
  by (cases c; cases p) (simp_all add: getStreamedResponse_synced)

lemma processChatStream_calls_synced:
  "(messages (snd (fold (processChatStream_call cfg) cs p)) = messages (snd p) \<and>
    store (snd (fold (processChatStream_call cfg) cs p)) = store (snd p)) \<or>
   store (snd (fold (processChatStream_call cfg) cs p)) (key cfg) =
     Some (messages (snd (fold (processChatStream_call cfg) cs p)))"
proof (induction cs rule: rev_induct)
  case Nil
  show ?case by simp
next
  case (snoc c cs)
  show ?case
    using snoc processChatStream_call_synced [of cfg c "fold (processChatStream_call cfg) cs p"]
    by auto
qed

lemma processChatStream_synced:
  "(messages (processChatStream cfg cs r s) = messages s \<and>
    store (processChatStream cfg cs r s) = store s) \<or>
   store (processChatStream cfg cs r s) (key cfg) = Some (messages (processChatStream cfg cs r s))"
  unfolding processChatStream_def using processChatStream_calls_synced [of cfg cs "(r, s)"] by simp

lemma triggerRequest_end_simps:
  "messages (snd (triggerRequest_end cfg out s)) = messages s"
  "store (snd (triggerRequest_end cfg out s)) = store s"
  "streamData (snd (triggerRequest_end cfg out s)) = streamData s"
  "loading (snd (triggerRequest_end cfg out s)) = False"
  "requests (snd (triggerRequest_end cfg out s)) = requests s"
  "controllers (snd (triggerRequest_end cfg out s)) = controllers s"
  "input (snd (triggerRequest_end cfg out s)) = input s"
  by (simp_all add: triggerRequest_end_def Let_def split: sum.splits thrown.splits option.splits)

lemma triggerRequest_synced:
  "(messages (snd (triggerRequest cfg r b s)) = messages s \<and>
    store (snd (triggerRequest cfg r b s)) = store s) \<or>
   store (snd (triggerRequest cfg r b s)) (key cfg) = Some (messages (snd (triggerRequest cfg r b s)))"
  using processChatStream_synced [of cfg "fst b" r "triggerRequest_begin s"]
  by (simp add: triggerRequest_def triggerRequest_end_simps triggerRequest_begin_simps)

lemma processChatStream_call_get:
  "snd (processChatStream_call cfg (GetStreamedResponse evs) p) =
     getStreamedResponse cfg (fst p) (streamData (snd p)) (messages (snd p))
       (abortController (snd p)) evs (snd p)"
  by (cases p) simp

lemma callChatApi_failure:
  "\<not> is_abort e \<Longrightarrow>
   fold (callback cfg r ex prev) (callChatApi \<lparr>updates = us, ending = Inl e\<rparr>) s =
     restoreMessagesOnFailure cfg prev
       (fold (callback cfg r ex prev) (map (\<lambda>(merged, data). OnUpdate merged data) us) s)"
  by (simp add: callChatApi_def)

lemma getStreamedResponse_failure:
  assumes "\<not> is_abort e"
  shows "messages (getStreamedResponse cfg r ex prev ac
           (callChatApi \<lparr>updates = us, ending = Inl e\<rparr>) s) = prev"
    and "store (getStreamedResponse cfg r ex prev ac
           (callChatApi \<lparr>updates = us, ending = Inl e\<rparr>) s) (key cfg) = Some prev"
  using assms
  by (simp_all add: getStreamedResponse_def Let_def callChatApi_failure
        restoreMessagesOnFailure_def mutate_def)

lemma getStreamedResponse_requests:
  "requests (getStreamedResponse cfg r ex prev ac evs s) =
     requests s @ [\<lparr>arg_api = api cfg,
                    arg_messages = constructedMessagesPayload (sendExtraMessageFields cfg) r,
                    arg_abortController = ac\<rparr>]"
  by (simp add: getStreamedResponse_def Let_def callbacks_frame mutate_def)




lemma append_chat_synced:
  "(messages (snd (append_chat cfg generated m opts b s)) = messages s \<and>
    store (snd (append_chat cfg generated m opts b s)) = store s) \<or>
   store (snd (append_chat cfg generated m opts b s)) (key cfg) =
     Some (messages (snd (append_chat cfg generated m opts b s)))"
  using triggerRequest_synced by (simp add: append_chat_def Let_def split: sum.splits)

lemma reload_synced:
  "(messages (snd (reload cfg opts b s)) = messages s \<and>
    store (snd (reload cfg opts b s)) = store s) \<or>
   store (snd (reload cfg opts b s)) (key cfg) = Some (messages (snd (reload cfg opts b s)))"
  unfolding reload_def Let_def using triggerRequest_synced by simp

lemma handleSubmit_synced:
  "(messages (handleSubmit cfg generated now opts b s) = messages s \<and>
    store (handleSubmit cfg generated now opts b s) = store s) \<or>
   store (handleSubmit cfg generated now opts b s) (key cfg) =
     Some (messages (handleSubmit cfg generated now opts b s))"
  unfolding handleSubmit_def Let_def using append_chat_synced by simp

lemma fresh_state_simps:
  "messages fresh_state = []" "store fresh_state = Map.empty" "streamData fresh_state = None"
  "loading fresh_state = False" "error fresh_state = None" "input fresh_state = []"
  "abortController fresh_state = None" "requests fresh_state = []"
  "onError_calls fresh_state = []" "next_controller fresh_state = 0"
  "controllers fresh_state = (\<lambda>_. False)" "uniqueId fresh_state = 0"
  by (simp_all add: fresh_state_def)

lemma callChatApi_abort:
  "is_abort e \<Longrightarrow>
   callChatApi \<lparr>updates = us, ending = Inl e\<rparr> = map (\<lambda>(merged, data). OnUpdate merged data) us"
  by (simp add: callChatApi_def)

lemma restore_last:
  "messages (getStreamedResponse cfg r ex prev ac (evs @ [RestoreMessagesOnFailure]) s) = prev"
  "store (getStreamedResponse cfg r ex prev ac (evs @ [RestoreMessagesOnFailure]) s) (key cfg) =
     Some prev"
  by (simp_all add: getStreamedResponse_def Let_def restoreMessagesOnFailure_def mutate_def)



lemma triggerRequest_end_object:
  assumes "err_name obj \<noteq> Some ''AbortError''"
  shows "onError_calls (snd (triggerRequest_end cfg (Inl (ThrownObject obj)) t)) =
           onError_calls t @ (if onError cfg \<noteq> None \<and> is_Error obj then [ThrownObject obj] else [])"
    and "onError cfg = None \<or> \<not> is_Error obj \<Longrightarrow>
           error (snd (triggerRequest_end cfg (Inl (ThrownObject obj)) t)) = Some (ThrownObject obj) \<and>
           fst (triggerRequest_end cfg (Inl (ThrownObject obj)) t) = Resolved Undefined"
    and "onError cfg = Some hook \<Longrightarrow> is_Error obj \<Longrightarrow> hook (ThrownObject obj) = None \<Longrightarrow>
           error (snd (triggerRequest_end cfg (Inl (ThrownObject obj)) t)) = Some (ThrownObject obj) \<and>
           fst (triggerRequest_end cfg (Inl (ThrownObject obj)) t) = Resolved Undefined"
    and "onError cfg = Some hook \<Longrightarrow> is_Error obj \<Longrightarrow> hook (ThrownObject obj) = Some raised \<Longrightarrow>
           error (snd (triggerRequest_end cfg (Inl (ThrownObject obj)) t)) = error t \<and>
           fst (triggerRequest_end cfg (Inl (ThrownObject obj)) t) = Rejected raised"
  using assms
  by (auto simp add: triggerRequest_end_def Let_def split: option.splits)

lemma one_message_simps:
  "messages one_message = [says ''1'' User ''Hi'']" "onError_calls one_message = []"
  "error one_message = None" "next_controller one_message = 0"
  "controllers one_message = (\<lambda>_. False)" "abortController one_message = None"
  by (simp_all add: one_message_def fresh_state_def)

section \<open>Properties\<close>

text \<open>
  C1, as amended. \<^verbatim>\<open>processChatStream\<close> makes any calls and rejects with an object that is not
  named \<^verbatim>\<open>AbortError\<close>. The \<^verbatim>\<open>catch\<close> block restores nothing itself: the messages, the mapping
  and the stream data are as the callbacks made during the exchange left them. When the last
  of these calls is a request in which \<^verbatim>\<open>restoreMessagesOnFailure\<close> is the last callback (as it
  is with the transport of the spec on such a failure), the messages, and the mapping under
  the session's key, are the snapshot read when that request was issued; for an exchange of
  a single request that is the conversation before the exchange began, and for \<^verbatim>\<open>append\<close>
  the conversation before the new message was added. Loading is false. \<^verbatim>\<open>onError\<close> is
  called with the object exactly when a hook is registered and the object is an instance of
  \<^verbatim>\<open>Error\<close>. When the hook is not called, or returns, the error observable is the object and
  the promise resolves with \<^verbatim>\<open>undefined\<close>; when the hook throws, the error observable stays
  cleared and the promise rejects with what the hook threw.
\<close>

theorem failed_exchange_restores_snapshot:
  assumes "err_name obj \<noteq> Some ''AbortError''"
  shows "let streamed = processChatStream cfg calls chatRequest (triggerRequest_begin s);
             result = triggerRequest cfg chatRequest (calls, Inl (ThrownObject obj)) s;
             before = processChatStream cfg earlier chatRequest (triggerRequest_begin s);
             restored = triggerRequest cfg chatRequest
               (earlier @ [GetStreamedResponse (evs @ [RestoreMessagesOnFailure])],
                Inl (ThrownObject obj)) s;
             modelled = triggerRequest cfg chatRequest
               (earlier @ [GetStreamedResponse
                  (callChatApi \<lparr>updates = us, ending = Inl (ThrownObject obj)\<rparr>)],
                Inl (ThrownObject obj)) s;
             single = triggerRequest cfg chatRequest
               ([GetStreamedResponse (evs @ [RestoreMessagesOnFailure])], Inl (ThrownObject obj)) s;
             appended = append_chat cfg generated message opts
               ([GetStreamedResponse (evs @ [RestoreMessagesOnFailure])], Inl (ThrownObject obj)) s
         in messages (snd result) = messages streamed \<and>
            store (snd result) = store streamed \<and>
            streamData (snd result) = streamData streamed \<and>
            messages (snd restored) = messages before \<and>
            store (snd restored) (key cfg) = Some (messages before) \<and>
            messages (snd modelled) = messages before \<and>
            messages (snd single) = messages s \<and>
            store (snd single) (key cfg) = Some (messages s) \<and>
            messages (snd appended) = messages s \<and>
            loading (snd result) = False \<and>
            onError_calls (snd result) =
              onError_calls s @
              (if onError cfg \<noteq> None \<and> is_Error obj then [ThrownObject obj] else []) \<and>
            (onError cfg = None \<or> \<not> is_Error obj \<longrightarrow>
               error (snd result) = Some (ThrownObject obj) \<and> fst result = Resolved Undefined) \<and>
            (onError cfg = Some hook \<and> is_Error obj \<and> hook (ThrownObject obj) = None \<longrightarrow>
               error (snd result) = Some (ThrownObject obj) \<and> fst result = Resolved Undefined) \<and>
            (onError cfg = Some hook \<and> is_Error obj \<and> hook (ThrownObject obj) = Some raised \<longrightarrow>
               error (snd result) = None \<and> fst result = Rejected raised)"
proof -
  have restored: "messages (processChatStream cfg
        (cs @ [GetStreamedResponse (evs @ [RestoreMessagesOnFailure])]) r t) =
      messages (processChatStream cfg cs r t)"
    "store (processChatStream cfg
        (cs @ [GetStreamedResponse (evs @ [RestoreMessagesOnFailure])]) r t) (key cfg) =
      Some (messages (processChatStream cfg cs r t))" for cs r t
    by (simp_all add: processChatStream_def processChatStream_call_get restore_last)
  have modelled: "messages (processChatStream cfg
        (cs @ [GetStreamedResponse (callChatApi \<lparr>updates = us, ending = Inl (ThrownObject obj)\<rparr>)])
        r t) = messages (processChatStream cfg cs r t)" for cs r t
    using assms
    by (simp add: processChatStream_def processChatStream_call_get getStreamedResponse_failure
          is_abort_def)
  have single: "messages (processChatStream cfg
        [GetStreamedResponse (evs @ [RestoreMessagesOnFailure])] r (triggerRequest_begin s)) =
      messages s"
    "store (processChatStream cfg
        [GetStreamedResponse (evs @ [RestoreMessagesOnFailure])] r (triggerRequest_begin s))
        (key cfg) = Some (messages s)" for r
    by (simp_all add: processChatStream_def restore_last triggerRequest_begin_simps)
  have appended: "messages (snd (append_chat cfg generated message opts
        ([GetStreamedResponse (evs @ [RestoreMessagesOnFailure])], Inl (ThrownObject obj)) s)) =
      messages s"
    by (simp add: append_chat_def Let_def triggerRequest_def triggerRequest_end_simps single
          split: sum.splits)
  show ?thesis
    using triggerRequest_end_object [OF assms, of cfg]
    by (simp add: Let_def triggerRequest_def triggerRequest_end_simps restored modelled single
          appended processChatStream_frame triggerRequest_begin_simps)
qed

theorem failed_exchange_restores_snapshot_witness:
  "err_name parse_error \<noteq> Some ''AbortError'' \<and>
   err_name plain_object \<noteq> Some ''AbortError'' \<and>
   messages (snd (triggerRequest chat_config (request_of [says ''1'' User ''Hi''])
     ([GetStreamedResponse ([OnUpdate [says ''2'' Assistant ''Hel''] None] @ [RestoreMessagesOnFailure])],
      Inl (ThrownObject parse_error)) one_message)) = [says ''1'' User ''Hi''] \<and>
   onError chat_config = Some quiet_hook \<and> is_Error parse_error \<and>
   quiet_hook (ThrownObject parse_error) = None \<and>
   error (snd (triggerRequest chat_config (request_of [says ''1'' User ''Hi''])
     ([GetStreamedResponse ([OnUpdate [says ''2'' Assistant ''Hel''] None] @ [RestoreMessagesOnFailure])],
      Inl (ThrownObject parse_error)) one_message)) = Some (ThrownObject parse_error) \<and>
   onError_calls (snd (triggerRequest chat_config (request_of [says ''1'' User ''Hi''])
     ([GetStreamedResponse ([OnUpdate [says ''2'' Assistant ''Hel''] None] @ [RestoreMessagesOnFailure])],
      Inl (ThrownObject parse_error)) one_message)) = [ThrownObject parse_error] \<and>
   \<not> is_Error plain_object \<and>
   fst (triggerRequest chat_config (request_of [says ''1'' User ''Hi''])
     ([GetStreamedResponse ([OnUpdate [says ''2'' Assistant ''Hel''] None] @ [RestoreMessagesOnFailure])],
      Inl (ThrownObject plain_object)) one_message) = Resolved Undefined \<and>
   onError (chat_config\<lparr>onError := Some throwing_hook\<rparr>) = Some throwing_hook \<and>
   throwing_hook (ThrownObject parse_error) = Some hook_failure \<and>
   fst (triggerRequest (chat_config\<lparr>onError := Some throwing_hook\<rparr>)
     (request_of [says ''1'' User ''Hi''])
     ([GetStreamedResponse ([OnUpdate [says ''2'' Assistant ''Hel''] None] @ [RestoreMessagesOnFailure])],
      Inl (ThrownObject parse_error)) one_message) = Rejected hook_failure"
proof -
  have h1: "err_name parse_error \<noteq> Some ''AbortError''"
    by (simp add: parse_error_def)
  have h2: "err_name plain_object \<noteq> Some ''AbortError''"
    by (simp add: plain_object_def)
  have facts: "onError chat_config = Some quiet_hook" "is_Error parse_error"
    "quiet_hook (ThrownObject parse_error) = None" "\<not> is_Error plain_object"
    "throwing_hook (ThrownObject parse_error) = Some hook_failure"
    by (simp_all add: chat_config_def parse_error_def quiet_hook_def plain_object_def
          throwing_hook_def)
  have restored:
    "messages (snd (triggerRequest chat_config (request_of [says ''1'' User ''Hi''])
       ([GetStreamedResponse ([OnUpdate [says ''2'' Assistant ''Hel''] None] @ [RestoreMessagesOnFailure])],
        Inl (ThrownObject parse_error)) one_message)) = [says ''1'' User ''Hi'']"
    using failed_exchange_restores_snapshot [OF h1, of chat_config "[]"
      "request_of [says ''1'' User ''Hi'']" one_message "[]"
      "[OnUpdate [says ''2'' Assistant ''Hel''] None]" "[]" "Inr []"
      "says ''1'' User ''Hi''" no_options quiet_hook ThrownNull]
    by (simp add: Let_def one_message_simps processChatStream_def triggerRequest_begin_simps)
  have returns:
    "error (snd (triggerRequest chat_config (request_of [says ''1'' User ''Hi''])
       ([GetStreamedResponse ([OnUpdate [says ''2'' Assistant ''Hel''] None] @ [RestoreMessagesOnFailure])],
        Inl (ThrownObject parse_error)) one_message)) = Some (ThrownObject parse_error) \<and>
     onError_calls (snd (triggerRequest chat_config (request_of [says ''1'' User ''Hi''])
       ([GetStreamedResponse ([OnUpdate [says ''2'' Assistant ''Hel''] None] @ [RestoreMessagesOnFailure])],
        Inl (ThrownObject parse_error)) one_message)) = [ThrownObject parse_error]"
    using facts failed_exchange_restores_snapshot [OF h1, of chat_config
      "[GetStreamedResponse ([OnUpdate [says ''2'' Assistant ''Hel''] None] @ [RestoreMessagesOnFailure])]"
      "request_of [says ''1'' User ''Hi'']" one_message "[]"
      "[OnUpdate [says ''2'' Assistant ''Hel''] None]" "[]" "Inr []"
      "says ''1'' User ''Hi''" no_options quiet_hook ThrownNull]
    by (simp add: Let_def one_message_simps)
  have unguarded:
    "fst (triggerRequest chat_config (request_of [says ''1'' User ''Hi''])
       ([GetStreamedResponse ([OnUpdate [says ''2'' Assistant ''Hel''] None] @ [RestoreMessagesOnFailure])],
        Inl (ThrownObject plain_object)) one_message) = Resolved Undefined"
    using facts failed_exchange_restores_snapshot [OF h2, of chat_config
      "[GetStreamedResponse ([OnUpdate [says ''2'' Assistant ''Hel''] None] @ [RestoreMessagesOnFailure])]"
      "request_of [says ''1'' User ''Hi'']" one_message "[]"
      "[OnUpdate [says ''2'' Assistant ''Hel''] None]" "[]" "Inr []"
      "says ''1'' User ''Hi''" no_options quiet_hook ThrownNull]
    by (simp add: Let_def)
  have throws:
    "fst (triggerRequest (chat_config\<lparr>onError := Some throwing_hook\<rparr>)
       (request_of [says ''1'' User ''Hi''])
       ([GetStreamedResponse ([OnUpdate [says ''2'' Assistant ''Hel''] None] @ [RestoreMessagesOnFailure])],
        Inl (ThrownObject parse_error)) one_message) = Rejected hook_failure"
    using facts failed_exchange_restores_snapshot [OF h1, of "chat_config\<lparr>onError := Some throwing_hook\<rparr>"
      "[GetStreamedResponse ([OnUpdate [says ''2'' Assistant ''Hel''] None] @ [RestoreMessagesOnFailure])]"
      "request_of [says ''1'' User ''Hi'']" one_message "[]"
      "[OnUpdate [says ''2'' Assistant ''Hel''] None]" "[]" "Inr []"
      "says ''1'' User ''Hi''" no_options throwing_hook hook_failure]
    by (simp add: Let_def)
  show ?thesis
    using h1 h2 facts restored returns unguarded throws by simp
qed

text \<open>
  C1 as stated fails in five ways. With a hook registered and a thrown object that is not
  an instance of \<^verbatim>\<open>Error\<close>, the error observable is set and the hook is not called. When
  \<^verbatim>\<open>processChatStream\<close> rejects after an update and no restore callback was called, the
  conversation "Hi" has become "Hi", "Hel". In an exchange of two requests whose second one
  is restored, the conversation is the one the second request started from, "Hi",
  "Calling", not the one before the exchange. When the rejection value is \<^verbatim>\<open>null\<close>, the error
  observable stays cleared and the hook is not called. When the hook throws, the error
  observable stays cleared.
\<close>

theorem failed_exchange_counterexample:
  "onError chat_config = Some quiet_hook \<and>
   error (snd (triggerRequest chat_config (request_of [says ''1'' User ''Hi''])
     ([GetStreamedResponse [RestoreMessagesOnFailure]], Inl (ThrownObject plain_object))
     one_message)) = Some (ThrownObject plain_object) \<and>
   onError_calls (snd (triggerRequest chat_config (request_of [says ''1'' User ''Hi''])
     ([GetStreamedResponse [RestoreMessagesOnFailure]], Inl (ThrownObject plain_object))
     one_message)) = [] \<and>
   messages one_message = [says ''1'' User ''Hi''] \<and>
   messages (snd (triggerRequest chat_config (request_of [says ''1'' User ''Hi''])
     ([GetStreamedResponse [OnUpdate [says ''2'' Assistant ''Hel''] None]],
      Inl (ThrownObject parse_error)) one_message)) =
     [says ''1'' User ''Hi'', says ''2'' Assistant ''Hel''] \<and>
   messages (snd (triggerRequest chat_config (request_of [says ''1'' User ''Hi''])
     (two_requests, Inl (ThrownObject parse_error)) one_message)) =
     [says ''1'' User ''Hi'', says ''2'' Assistant ''Calling''] \<and>
   error (snd (triggerRequest chat_config (request_of [says ''1'' User ''Hi''])
     ([GetStreamedResponse [RestoreMessagesOnFailure]], Inl ThrownNull) one_message)) = None \<and>
   onError_calls (snd (triggerRequest chat_config (request_of [says ''1'' User ''Hi''])
     ([GetStreamedResponse [RestoreMessagesOnFailure]], Inl ThrownNull) one_message)) = [] \<and>
   error (snd (triggerRequest (chat_config\<lparr>onError := Some throwing_hook\<rparr>)
     (request_of [says ''1'' User ''Hi''])
     ([GetStreamedResponse [RestoreMessagesOnFailure]], Inl (ThrownObject parse_error))
     one_message)) = None"
  by (simp add: triggerRequest_def triggerRequest_end_def processChatStream_def
        getStreamedResponse_def Let_def onUpdate_def restoreMessagesOnFailure_def mutate_def
        triggerRequest_begin_def two_requests_def request_of_def one_message_def fresh_state_def
        chat_config_def plain_object_def parse_error_def throwing_hook_def quiet_hook_def)

text \<open>
  C5. \<^verbatim>\<open>triggerRequest\<close> is the statements of lines 157 to 159, then \<^verbatim>\<open>processChatStream\<close>,
  then the rest. The first clear the error observable and set loading to true, and both
  stay so while \<^verbatim>\<open>processChatStream\<close> runs. Whatever \<^verbatim>\<open>processChatStream\<close> did and however its
  promise settled (normally, with an abort error, with any other value, also one that makes
  the \<^verbatim>\<open>catch\<close> block throw), the \<^verbatim>\<open>finally\<close> block leaves loading false. An error observed
  before the exchange is gone after an exchange that returned or was aborted, and the
  result of an exchange does not depend on the error and the loading flag it started with.
  The same holds of \<^verbatim>\<open>append\<close> and of \<^verbatim>\<open>reload\<close> on a conversation that is not empty.
\<close>

theorem loading_false_after_exchange:
  "triggerRequest cfg chatRequest b s =
     triggerRequest_end cfg (snd b)
       (processChatStream cfg (fst b) chatRequest (triggerRequest_begin s)) \<and>
   error (triggerRequest_begin s) = None \<and>
   loading (triggerRequest_begin s) = True \<and>
   error (processChatStream cfg calls chatRequest (triggerRequest_begin s)) = None \<and>
   loading (processChatStream cfg calls chatRequest (triggerRequest_begin s)) = True \<and>
   loading (snd (triggerRequest_end cfg outcome s')) = False \<and>
   loading (snd (triggerRequest cfg chatRequest b s)) = False \<and>
   error (snd (triggerRequest cfg chatRequest (calls, Inr u) s)) = None \<and>
   error (snd (triggerRequest cfg chatRequest
     (calls, Inl (ThrownObject (obj\<lparr>err_name := Some ''AbortError''\<rparr>))) s)) = None \<and>
   triggerRequest cfg chatRequest b (s\<lparr>error := stale, loading := busy\<rparr>) =
     triggerRequest cfg chatRequest b s \<and>
   loading (snd (append_chat cfg (Inr i) message opts b s)) = False \<and>
   loading (snd (reload cfg opts b s)) = (if messages s = [] then loading s else False) \<and>
   error (snd (reload cfg opts (calls, Inr u) s)) = (if messages s = [] then error s else None)"
proof -
  have same: "triggerRequest_begin (s\<lparr>error := stale, loading := busy\<rparr>) = triggerRequest_begin s"
    by (simp add: triggerRequest_begin_def Let_def)
  have ok: "error (snd (triggerRequest_end cfg (Inr ()) t)) = error t" for t
    by (simp add: triggerRequest_end_def)
  have aborted: "error (snd (triggerRequest_end cfg
      (Inl (ThrownObject (obj\<lparr>err_name := Some ''AbortError''\<rparr>))) t)) = error t" for t
    by (simp add: triggerRequest_end_def)
  show ?thesis
    by (simp add: triggerRequest_def same ok aborted triggerRequest_end_simps
          processChatStream_frame triggerRequest_begin_simps append_chat_def reload_def Let_def)
qed

text \<open>
  C4. \<^verbatim>\<open>processChatStream\<close> makes any calls and rejects with a value \<open>e\<close> named
  \<^verbatim>\<open>AbortError\<close>. Then the promise of \<^verbatim>\<open>triggerRequest\<close> resolves (with \<^verbatim>\<open>null\<close>), the error
  observable stays cleared, \<^verbatim>\<open>onError\<close> is not called, the handle is cleared, loading is false,
  and the messages, the mapping and the stream data are left as the callbacks made during
  the exchange left them: the \<^verbatim>\<open>catch\<close> branch rolls nothing back. With the transport of
  the spec, an exchange cut after an update shows the request's messages followed by the
  messages of that update, and one cut before any update shows the request's messages.
\<close>

theorem abort_resolves_silently:
  assumes "err_name obj = Some ''AbortError''"
  shows "let streamed = processChatStream cfg calls chatRequest (triggerRequest_begin s);
             result = triggerRequest cfg chatRequest (calls, Inl (ThrownObject obj)) s;
             cut = triggerRequest cfg chatRequest
                     ([GetStreamedResponse
                         (callChatApi \<lparr>updates = us @ [(merged, data)], ending = Inl (ThrownObject obj)\<rparr>)],
                      Inl (ThrownObject obj)) s;
             early = triggerRequest cfg chatRequest
                     ([GetStreamedResponse (callChatApi \<lparr>updates = [], ending = Inl (ThrownObject obj)\<rparr>)],
                      Inl (ThrownObject obj)) s
         in fst result = Resolved Null \<and>
            error (snd result) = None \<and>
            onError_calls (snd result) = onError_calls s \<and>
            messages (snd result) = messages streamed \<and>
            store (snd result) = store streamed \<and>
            streamData (snd result) = streamData streamed \<and>
            abortController (snd result) = None \<and>
            loading (snd result) = False \<and>
            messages (snd cut) = req_messages chatRequest @ merged \<and>
            messages (snd early) = req_messages chatRequest"
proof -
  have end_abort: "triggerRequest_end cfg (Inl (ThrownObject obj)) t =
      (Resolved Null, (t\<lparr>abortController := None\<rparr>)\<lparr>loading := False\<rparr>)" for t
    using assms by (simp add: triggerRequest_end_def)
  have cut: "messages (processChatStream cfg
        [GetStreamedResponse (callChatApi \<lparr>updates = us @ [(merged, data)], ending = Inl (ThrownObject obj)\<rparr>)]
        chatRequest t) = req_messages chatRequest @ merged" for t
    using assms
    by (simp add: processChatStream_def getStreamedResponse_def Let_def callChatApi_abort
          is_abort_def onUpdate_def mutate_def)
  have early: "messages (processChatStream cfg
        [GetStreamedResponse (callChatApi \<lparr>updates = [], ending = Inl (ThrownObject obj)\<rparr>)]
        chatRequest t) = req_messages chatRequest" for t
    using assms
    by (simp add: processChatStream_def getStreamedResponse_def Let_def callChatApi_abort
          is_abort_def mutate_def)
  show ?thesis
    by (simp add: Let_def triggerRequest_def end_abort cut early processChatStream_frame
          triggerRequest_begin_simps)
qed

theorem abort_resolves_silently_witness:
  "err_name abort_error = Some ''AbortError'' \<and>
   fst (triggerRequest chat_config (request_of [says ''1'' User ''Hi''])
     ([GetStreamedResponse (callChatApi
         \<lparr>updates = [] @ [([says ''2'' Assistant ''Hel''], None)], ending = Inl (ThrownObject abort_error)\<rparr>)],
      Inl (ThrownObject abort_error)) fresh_state) = Resolved Null \<and>
   error (snd (triggerRequest chat_config (request_of [says ''1'' User ''Hi''])
     ([GetStreamedResponse (callChatApi
         \<lparr>updates = [] @ [([says ''2'' Assistant ''Hel''], None)], ending = Inl (ThrownObject abort_error)\<rparr>)],
      Inl (ThrownObject abort_error)) fresh_state)) = None \<and>
   onError_calls (snd (triggerRequest chat_config (request_of [says ''1'' User ''Hi''])
     ([GetStreamedResponse (callChatApi
         \<lparr>updates = [] @ [([says ''2'' Assistant ''Hel''], None)], ending = Inl (ThrownObject abort_error)\<rparr>)],
      Inl (ThrownObject abort_error)) fresh_state)) = [] \<and>
   messages (snd (triggerRequest chat_config (request_of [says ''1'' User ''Hi''])
     ([GetStreamedResponse (callChatApi
         \<lparr>updates = [] @ [([says ''2'' Assistant ''Hel''], None)], ending = Inl (ThrownObject abort_error)\<rparr>)],
      Inl (ThrownObject abort_error)) fresh_state)) = [says ''1'' User ''Hi'', says ''2'' Assistant ''Hel'']"
proof -
  have h: "err_name abort_error = Some ''AbortError''"
    by (simp add: abort_error_def)
  have outcome:
    "fst (triggerRequest chat_config (request_of [says ''1'' User ''Hi''])
       ([GetStreamedResponse (callChatApi
           \<lparr>updates = [] @ [([says ''2'' Assistant ''Hel''], None)], ending = Inl (ThrownObject abort_error)\<rparr>)],
        Inl (ThrownObject abort_error)) fresh_state) = Resolved Null \<and>
     error (snd (triggerRequest chat_config (request_of [says ''1'' User ''Hi''])
       ([GetStreamedResponse (callChatApi
           \<lparr>updates = [] @ [([says ''2'' Assistant ''Hel''], None)], ending = Inl (ThrownObject abort_error)\<rparr>)],
        Inl (ThrownObject abort_error)) fresh_state)) = None \<and>
     onError_calls (snd (triggerRequest chat_config (request_of [says ''1'' User ''Hi''])
       ([GetStreamedResponse (callChatApi
           \<lparr>updates = [] @ [([says ''2'' Assistant ''Hel''], None)], ending = Inl (ThrownObject abort_error)\<rparr>)],
        Inl (ThrownObject abort_error)) fresh_state)) = []"
    using abort_resolves_silently [OF h, of chat_config
      "[GetStreamedResponse (callChatApi
         \<lparr>updates = [] @ [([says ''2'' Assistant ''Hel''], None)], ending = Inl (ThrownObject abort_error)\<rparr>)]"
      "request_of [says ''1'' User ''Hi'']" fresh_state "[]" "[says ''2'' Assistant ''Hel'']" None]
    by (simp add: Let_def fresh_state_simps)
  have kept:
    "messages (snd (triggerRequest chat_config (request_of [says ''1'' User ''Hi''])
       ([GetStreamedResponse (callChatApi
           \<lparr>updates = [] @ [([says ''2'' Assistant ''Hel''], None)], ending = Inl (ThrownObject abort_error)\<rparr>)],
        Inl (ThrownObject abort_error)) fresh_state)) = [says ''1'' User ''Hi'', says ''2'' Assistant ''Hel'']"
    using abort_resolves_silently [OF h, of chat_config "[]"
      "request_of [says ''1'' User ''Hi'']" fresh_state "[]" "[says ''2'' Assistant ''Hel'']" None]
    by (simp add: Let_def request_of_def)
  show ?thesis
    using h outcome kept by simp
qed




text \<open>
  C9. With no messages, \<^verbatim>\<open>reload\<close> resolves with \<^verbatim>\<open>null\<close> and leaves the whole state as it
  was: no request is logged, and messages, loading and error are unchanged.
\<close>

theorem reload_empty_is_noop:
  "messages s = [] \<Longrightarrow> reload cfg opts b s = (Resolved Null, s)"
  by (simp add: reload_def)

theorem reload_empty_is_noop_witness:
  "messages fresh_state = [] \<and>
   reload chat_config no_options ([GetStreamedResponse []], Inr ()) fresh_state =
     (Resolved Null, fresh_state)"
  using reload_empty_is_noop [of fresh_state chat_config no_options "([GetStreamedResponse []], Inr ())"]
  by (simp add: fresh_state_simps)



text \<open>
  C7. With \<^verbatim>\<open>sendExtraMessageFields\<close> unset (or false) the payload is the request's messages
  mapped, in order, to objects holding the role, the content, the name, the function call,
  the tool calls and the tool call id of each; the object does not depend on the id or on
  the creation time of the message. With \<^verbatim>\<open>sendExtraMessageFields\<close> true the payload is the
  messages themselves. That payload is what \<^verbatim>\<open>getStreamedResponse\<close> hands to
  \<^verbatim>\<open>callChatApi\<close>.
\<close>

theorem payload_projection:
  "constructedMessagesPayload None r = Minimal (map project (req_messages r)) \<and>
   constructedMessagesPayload (Some False) r = Minimal (map project (req_messages r)) \<and>
   constructedMessagesPayload (Some True) r = Full (req_messages r) \<and>
   p_role (project m) = role m \<and>
   p_content (project m) = content m \<and>
   p_name (project m) = name m \<and>
   p_function_call (project m) = function_call m \<and>
   p_tool_calls (project m) = tool_calls m \<and>
   p_tool_call_id (project m) = tool_call_id m \<and>
   project (m\<lparr>msg_id := i, createdAt := t\<rparr>) = project m \<and>
   length (map project ms) = length ms \<and>
   map p_role (map project ms) = map role ms \<and>
   map p_content (map project ms) = map content ms \<and>
   requests (getStreamedResponse cfg r existingData previousMessages ac evs s) =
     requests s @
     [\<lparr>arg_api = api cfg,
       arg_messages = constructedMessagesPayload (sendExtraMessageFields cfg) r,
       arg_abortController = ac\<rparr>]"
  by (simp add: constructedMessagesPayload_def project_def getStreamedResponse_requests comp_def)

text \<open>
  C8, as amended. \<^verbatim>\<open>stop\<close> acts on the session's handle, not on the exchanges in flight.
  With the handle set, it aborts the controller the handle refers to and clears the handle;
  in particular it aborts the controller of an exchange that has just begun. With the
  handle \<^verbatim>\<open>null\<close> it changes nothing. Calling it twice is calling it once. It never changes
  the messages, the stream data, loading, the error, the input, the mapping or the two logs.
  There is no \<^verbatim>\<open>throw\<close> in it: it is a total function of the state.
\<close>

theorem stop_cancels_and_is_idempotent:
  "(abortController s = Some c \<longrightarrow> controllers (stop s) c \<and> abortController (stop s) = None) \<and>
   (abortController s = None \<longrightarrow> stop s = s) \<and>
   stop (stop s) = stop s \<and>
   messages (stop s) = messages s \<and>
   streamData (stop s) = streamData s \<and>
   loading (stop s) = loading s \<and>
   error (stop s) = error s \<and>
   input (stop s) = input s \<and>
   store (stop s) = store s \<and>
   requests (stop s) = requests s \<and>
   onError_calls (stop s) = onError_calls s \<and>
   controllers (stop (processChatStream cfg calls r (triggerRequest_begin s))) (next_controller s)"
  by (simp add: stop_def processChatStream_frame triggerRequest_begin_simps split: option.splits)

theorem stop_cancels_and_is_idempotent_witness:
  "abortController (triggerRequest_begin fresh_state) = Some 0 \<and>
   controllers (stop (triggerRequest_begin fresh_state)) 0 \<and>
   abortController (stop (triggerRequest_begin fresh_state)) = None \<and>
   abortController fresh_state = None \<and>
   stop fresh_state = fresh_state \<and>
   stop (stop (triggerRequest_begin fresh_state)) = stop (triggerRequest_begin fresh_state)"
  using stop_cancels_and_is_idempotent [of "triggerRequest_begin fresh_state" 0]
    stop_cancels_and_is_idempotent [of fresh_state]
  by (simp add: triggerRequest_begin_simps fresh_state_simps)

text \<open>
  C8 as stated fails in both directions. When exchange A has returned while exchange B
  awaits, the handle is \<^verbatim>\<open>null\<close>: \<^verbatim>\<open>stop\<close> changes nothing and B's controller 1 is not aborted,
  although B is in flight. After an exchange that failed, nothing is in flight and the
  handle still refers to controller 0: \<^verbatim>\<open>stop\<close> aborts it and clears the handle, so it is
  not the identity (no observable changes).
\<close>

theorem stop_misses_exchange_counterexample:
  "abortController while_B_awaits = Some 1 \<and>
   abortController A_returned_while_B_awaits = None \<and>
   stop A_returned_while_B_awaits = A_returned_while_B_awaits \<and>
   \<not> controllers (stop A_returned_while_B_awaits) 1 \<and>
   abortController after_failure = Some 0 \<and>
   \<not> controllers after_failure 0 \<and>
   controllers (stop after_failure) 0 \<and>
   stop after_failure \<noteq> after_failure"
proof -
  have b: "abortController while_B_awaits = Some 1" "\<not> controllers while_B_awaits 1"
    by (simp_all add: while_A_awaits_def while_B_awaits_def processChatStream_frame
          triggerRequest_begin_simps fresh_state_simps)
  have a: "abortController A_returned_while_B_awaits = None"
    "controllers A_returned_while_B_awaits = controllers while_B_awaits"
    by (simp_all add: A_returned_while_B_awaits_def triggerRequest_end_def)
  have f: "abortController after_failure = Some 0" "\<not> controllers after_failure 0"
    by (simp_all add: after_failure_def triggerRequest_def triggerRequest_end_def
          processChatStream_frame triggerRequest_begin_simps one_message_simps
          chat_config_def parse_error_def quiet_hook_def)
  have g: "controllers (stop after_failure) 0"
    using f by (simp add: stop_def)
  have "controllers (stop after_failure) \<noteq> controllers after_failure"
    using f g by metis
  then have h: "stop after_failure \<noteq> after_failure"
    by metis
  show ?thesis
    using a b f g h by (simp add: stop_def)
qed

text \<open>
  C2, as amended. Exchange A begins in state \<open>s\<close> and makes any calls; then exchange B
  begins and makes any calls. B's controller is the session's handle; A's controller has
  not been aborted, and \<^verbatim>\<open>stop\<close> then aborts B's controller and leaves A's alone. An update
  of A that arrives now sets the messages, and the mapping under the session's key, to A's
  request messages followed by the update's messages.
\<close>

theorem superseded_exchange_not_cancelled:
  "let during_A = processChatStream cfg callsA reqA (triggerRequest_begin s);
       during_B = processChatStream cfg callsB reqB (triggerRequest_begin during_A)
   in abortController during_A = Some (next_controller s) \<and>
      abortController during_B = Some (Suc (next_controller s)) \<and>
      controllers during_B (next_controller s) = False \<and>
      controllers (stop during_B) (next_controller s) = False \<and>
      controllers (stop during_B) (Suc (next_controller s)) = True \<and>
      messages (onUpdate cfg reqA existingData merged data during_B) = req_messages reqA @ merged \<and>
      store (onUpdate cfg reqA existingData merged data during_B) (key cfg) =
        Some (req_messages reqA @ merged)"
  by (simp add: Let_def processChatStream_frame triggerRequest_begin_simps stop_def onUpdate_def
        mutate_def)

text \<open>
  C2 as stated fails: after B ("Yo") has started, A's controller 0 is not aborted, and an
  update of A replaces the messages "Hi", "Yo" of B's lineage by "Hi", "Hel".
\<close>

theorem superseded_exchange_counterexample:
  "abortController while_A_awaits = Some 0 \<and>
   abortController while_B_awaits = Some 1 \<and>
   \<not> controllers while_B_awaits 0 \<and>
   messages while_B_awaits = [says ''1'' User ''Hi'', says ''2'' User ''Yo''] \<and>
   messages (onUpdate chat_config (request_of [says ''1'' User ''Hi'']) None
               [says ''3'' Assistant ''Hel''] None while_B_awaits) =
     [says ''1'' User ''Hi'', says ''3'' Assistant ''Hel'']"
  by (simp add: while_A_awaits_def while_B_awaits_def processChatStream_frame
        triggerRequest_begin_simps fresh_state_simps onUpdate_def mutate_def request_of_def
        processChatStream_def getStreamedResponse_def Let_def)

text \<open>
  C3, as amended. \<^verbatim>\<open>useChat\<close> starts the messages from the option \<^verbatim>\<open>initialMessages\<close> (empty
  by default) and does not touch the mapping; the session's key is the endpoint, a bar and
  the id given. \<^verbatim>\<open>mutate\<close> and \<^verbatim>\<open>setMessages\<close> write the messages and the mapping under the
  key together, and after \<^verbatim>\<open>triggerRequest\<close>, \<^verbatim>\<open>append\<close>, \<^verbatim>\<open>reload\<close> and \<^verbatim>\<open>handleSubmit\<close>
  either the messages and the mapping are as before or the mapping under the key holds the
  messages.
\<close>

theorem store_written_but_not_read:
  "messages (snd (useChat opts g)) = (case initialMessages_opt opts of None \<Rightarrow> [] | Some ms \<Rightarrow> ms) \<and>
   store (snd (useChat opts g)) = store g \<and>
   key (fst (useChat (opts\<lparr>id_opt := Some (c # cs)\<rparr>) g)) =
     (case api_opt opts of None \<Rightarrow> ''/api/chat'' | Some a \<Rightarrow> a) @ ''|'' @ c # cs \<and>
   messages (mutate cfg d s) = d \<and>
   store (mutate cfg d s) (key cfg) = Some d \<and>
   messages (setMessages cfg d s) = d \<and>
   store (setMessages cfg d s) (key cfg) = Some d \<and>
   ((messages (snd (triggerRequest cfg r b s)) = messages s \<and>
     store (snd (triggerRequest cfg r b s)) = store s) \<or>
    store (snd (triggerRequest cfg r b s)) (key cfg) =
      Some (messages (snd (triggerRequest cfg r b s)))) \<and>
   ((messages (snd (append_chat cfg generated m ro b s)) = messages s \<and>
     store (snd (append_chat cfg generated m ro b s)) = store s) \<or>
    store (snd (append_chat cfg generated m ro b s)) (key cfg) =
      Some (messages (snd (append_chat cfg generated m ro b s)))) \<and>
   ((messages (snd (reload cfg ro b s)) = messages s \<and>
     store (snd (reload cfg ro b s)) = store s) \<or>
    store (snd (reload cfg ro b s)) (key cfg) = Some (messages (snd (reload cfg ro b s)))) \<and>
   ((messages (handleSubmit cfg generated now ro b s) = messages s \<and>
     store (handleSubmit cfg generated now ro b s) = store s) \<or>
    store (handleSubmit cfg generated now ro b s) (key cfg) =
      Some (messages (handleSubmit cfg generated now ro b s)))"
proof -
  have construct:
    "messages (snd (useChat opts g)) = (case initialMessages_opt opts of None \<Rightarrow> [] | Some ms \<Rightarrow> ms)"
    "store (snd (useChat opts g)) = store g"
    "key (fst (useChat (opts\<lparr>id_opt := Some (c # cs)\<rparr>) g)) =
       (case api_opt opts of None \<Rightarrow> ''/api/chat'' | Some a \<Rightarrow> a) @ ''|'' @ c # cs"
    by (simp_all add: useChat_def Let_def key_def split: option.splits prod.splits)
  have written:
    "messages (mutate cfg d s) = d" "store (mutate cfg d s) (key cfg) = Some d"
    "messages (setMessages cfg d s) = d" "store (setMessages cfg d s) (key cfg) = Some d"
    by (simp_all add: setMessages_def mutate_def)
  show ?thesis
    using construct written triggerRequest_synced [of cfg r b s]
      append_chat_synced [of cfg generated m ro b s] reload_synced [of cfg ro b s]
      handleSubmit_synced [of cfg generated now ro b s]
    by blast
qed

text \<open>
  C3 as stated fails where it says that the session is rehydrated: constructed again with
  the same id after its messages were set, the session has the same key, the mapping under
  that key holds the message, and the session's messages are empty.
\<close>

theorem rehydration_counterexample:
  "fst session_a_again = fst session_a \<and>
   store (snd session_a_again) (key (fst session_a_again)) = Some [says ''1'' User ''Hi''] \<and>
   messages (snd session_a_again) = []"
  by (simp add: session_a_again_def session_a_used_def session_a_def useChat_def Let_def
        chat_a_def setMessages_def mutate_def key_def)

end
